theory Spec2Isabelle
  imports Complex_Main "HOL-Library.Sublist" "HOL-Library.Multiset"
begin

section \<open>Conventions of the embedding\<close>

text \<open>
  The engine computes with Python floats. Finite floats are embedded as \<^typ>\<open>real\<close>, so
  every theorem below is a statement over exact arithmetic; rounding is not modelled.
  \<^verbatim>\<open>np.sqrt(252)\<close> is \<^term>\<open>sqrt 252\<close>. A Python exception is a value of
  \<open>error\<close> on the left of a sum. Dividing a Python float by zero raises
  \<^verbatim>\<open>ZeroDivisionError\<close>; the scalar arguments of the position sizer are documented as
  \<^verbatim>\<open>float\<close>, and that is the semantics modelled for it. With numpy \<^verbatim>\<open>float64\<close>
  scalars, which is what \<^verbatim>\<open>load_market_data\<close> passes on from the summary, a zero divisor
  yields NaN or an infinity instead of an exception; model and code agree wherever no
  divisor is zero, and the properties of the position sizer stated below are about such
  inputs. The indicator code works on pandas series, where division by zero yields an
  infinity or NaN as well; those values are modelled in the section on the RSI.
\<close>

datatype error = ZeroDivisionError | KeyError | ValueError | Exception

text \<open>
  A dict literal followed by \<^verbatim>\<open>.get(key, default)\<close>. In a Python dict literal a key
  written twice keeps its last value, hence the \<^const>\<open>rev\<close>.
\<close>

definition dict_get :: "('k \<times> 'v) list \<Rightarrow> 'k \<Rightarrow> 'v \<Rightarrow> 'v" where
  "dict_get kvs k d = (case map_of (rev kvs) k of None \<Rightarrow> d | Some v \<Rightarrow> v)"

section \<open>The RSI of the indicator snapshot (yahoo\_currency\_wrapper.py)\<close>

text \<open>
  The values of a pandas \<^verbatim>\<open>float64\<close> series: a finite value (exact, as a real), an
  infinity or NaN. The sign of a zero is not modelled; a zero divisor counts as \<open>+0.0\<close>,
  which is what the rolling mean of the loss series produces.
\<close>

datatype float64 = NaN | NegInf | PosInf | Fin real

definition isnan :: "float64 \<Rightarrow> bool" where
  "isnan x = (case x of NaN \<Rightarrow> True | _ \<Rightarrow> False)"

fun fneg :: "float64 \<Rightarrow> float64" where
  "fneg NaN = NaN"
| "fneg NegInf = PosInf"
| "fneg PosInf = NegInf"
| "fneg (Fin a) = Fin (- a)"

fun fadd :: "float64 \<Rightarrow> float64 \<Rightarrow> float64" where
  "fadd NaN y = NaN"
| "fadd x NaN = NaN"
| "fadd (Fin a) (Fin b) = Fin (a + b)"
| "fadd PosInf NegInf = NaN"
| "fadd NegInf PosInf = NaN"
| "fadd PosInf y = PosInf"
| "fadd NegInf y = NegInf"
| "fadd (Fin a) y = y"

definition fsub :: "float64 \<Rightarrow> float64 \<Rightarrow> float64" where
  "fsub x y = fadd x (fneg y)"

fun fdiv :: "float64 \<Rightarrow> float64 \<Rightarrow> float64" where
  "fdiv NaN y = NaN"
| "fdiv x NaN = NaN"
| "fdiv (Fin a) (Fin b) =
     (if b \<noteq> 0 then Fin (a / b)
      else if 0 < a then PosInf else if a < 0 then NegInf else NaN)"
| "fdiv (Fin a) y = Fin 0"
| "fdiv PosInf (Fin b) = (if b < 0 then NegInf else PosInf)"
| "fdiv NegInf (Fin b) = (if b < 0 then PosInf else NegInf)"
| "fdiv x y = NaN"

text \<open>The comparisons \<^verbatim>\<open>delta > 0\<close> and \<^verbatim>\<open>delta < 0\<close>; both are false on NaN.\<close>

fun gt_zero :: "float64 \<Rightarrow> bool" where
  "gt_zero (Fin a) = (0 < a)"
| "gt_zero PosInf = True"
| "gt_zero x = False"

fun lt_zero :: "float64 \<Rightarrow> bool" where
  "lt_zero (Fin a) = (a < 0)"
| "lt_zero NegInf = True"
| "lt_zero x = False"

text \<open>\<^verbatim>\<open>Series.diff()\<close>: the first entry has no predecessor and is NaN.\<close>

fun diff :: "real list \<Rightarrow> float64 list" where
  "diff [] = []"
| "diff (x # xs) = NaN # map2 (\<lambda>a b. Fin (b - a)) (x # xs) xs"

text \<open>\<^verbatim>\<open>Series.where(cond, other)\<close> keeps an entry where the condition holds.\<close>

definition series_where :: "(float64 \<Rightarrow> bool) \<Rightarrow> float64 \<Rightarrow> float64 list \<Rightarrow> float64 list" where
  "series_where cond other xs = map (\<lambda>x. if cond x then x else other) xs"

text \<open>\<^verbatim>\<open>Series.fillna(value)\<close>.\<close>

definition fillna :: "float64 \<Rightarrow> float64 \<Rightarrow> float64" where
  "fillna val x = (if isnan x then val else x)"

text \<open>
  \<^verbatim>\<open>Series.rolling(window=w).mean()\<close>. The minimum number of observations is the window
  size: the mean at an index is NaN unless the window ending there holds \<open>w\<close> entries,
  none of them NaN.
\<close>

definition window_mean :: "nat \<Rightarrow> float64 list \<Rightarrow> float64" where
  "window_mean w ws =
     (if length ws < w \<or> list_ex isnan ws then NaN
      else fdiv (foldl fadd (Fin 0) ws) (Fin (real w)))"

definition rolling_mean :: "nat \<Rightarrow> float64 list \<Rightarrow> float64 list" where
  "rolling_mean w xs = map (\<lambda>i. window_mean w (drop (i + 1 - w) (take (i + 1) xs))) [0..<length xs]"

text \<open>
  The RSI lines of \<^verbatim>\<open>get_summary\<close> (source lines 57 to 61), one definition per local
  variable, as functions of the column \<^verbatim>\<open>df['Close']\<close>.
\<close>

definition delta_series :: "real list \<Rightarrow> float64 list" where
  "delta_series close = diff close"

definition gain_series :: "real list \<Rightarrow> float64 list" where
  "gain_series close = rolling_mean 14 (series_where gt_zero (Fin 0) (delta_series close))"

definition loss_series :: "real list \<Rightarrow> float64 list" where
  "loss_series close =
     rolling_mean 14 (map fneg (series_where lt_zero (Fin 0) (delta_series close)))"

definition rs_series :: "real list \<Rightarrow> float64 list" where
  "rs_series close = map2 fdiv (gain_series close) (loss_series close)"

definition rsi_series :: "real list \<Rightarrow> float64 list" where
  "rsi_series close =
     map (\<lambda>rs. fsub (Fin 100) (fillna (Fin 50) (fdiv (Fin 100) (fadd (Fin 1) rs))))
       (rs_series close)"

text \<open>
  The value stored under \<^verbatim>\<open>'rsi'\<close> in the summary (source line 78). An empty frame makes
  \<^verbatim>\<open>get_summary\<close> raise \<^verbatim>\<open>Exception\<close> before the RSI is computed.
\<close>

definition rsi_value :: "real list \<Rightarrow> error + float64" where
  "rsi_value close =
     (if close = [] then Inl Exception
      else let r = last (rsi_series close) in Inr (if isnan r then Fin 50 else r))"

text \<open>A finite value that is not negative: what the gain and loss terms are.\<close>

definition nonneg_fin :: "float64 \<Rightarrow> bool" where
  "nonneg_fin x = (case x of Fin a \<Rightarrow> 0 \<le> a | _ \<Rightarrow> False)"

section \<open>Risk profile tables (forex\_data\_processor.py)\<close>

record config = 
  base_lot :: real
  risk_factor :: real

text \<open>\<^verbatim>\<open>self.position_config\<close>, built in \<^verbatim>\<open>ForexDataProcessor.__init__\<close>.\<close>

definition position_config :: "(string \<times> config) list" where
  "position_config =
   [(''EUR'', \<lparr>base_lot = 100000, risk_factor = 1.0\<rparr>),
    (''GBP'', \<lparr>base_lot = 80000, risk_factor = 1.2\<rparr>),
    (''USD'', \<lparr>base_lot = 100000, risk_factor = 1.0\<rparr>),
    (''JPY'', \<lparr>base_lot = 10000000, risk_factor = 0.8\<rparr>),
    (''CHF'', \<lparr>base_lot = 100000, risk_factor = 0.9\<rparr>),
    (''AUD'', \<lparr>base_lot = 100000, risk_factor = 1.3\<rparr>),
    (''NZD'', \<lparr>base_lot = 100000, risk_factor = 1.4\<rparr>),
    (''CAD'', \<lparr>base_lot = 100000, risk_factor = 1.1\<rparr>)]"

text \<open>The default of the lookup in \<^verbatim>\<open>_calculate_position_parameters\<close>.\<close>

definition default_config :: config where
  "default_config = \<lparr>base_lot = 100000, risk_factor = 1.0\<rparr>"

record multipliers =
  stop :: real
  profit :: real

text \<open>
  The local table \<^verbatim>\<open>currency_multipliers\<close> of \<^verbatim>\<open>_calculate_dynamic_distances\<close>, in
  source order (the key UGX occurs twice, with the same value).
\<close>

definition currency_multipliers :: "(string \<times> multipliers) list" where
  "currency_multipliers =
   [
(''JPY'', \<lparr>stop = 1.4, profit = 2.2\<rparr>), (''EUR'', \<lparr>stop = 1.2, profit = 2.5\<rparr>),
    (''GBP'', \<lparr>stop = 1.3, profit = 2.3\<rparr>), (''USD'', \<lparr>stop = 1.2, profit = 2.4\<rparr>),
    (''CHF'', \<lparr>stop = 1.3, profit = 2.2\<rparr>), (''AUD'', \<lparr>stop = 1.5, profit = 2.1\<rparr>),
    (''NZD'', \<lparr>stop = 1.5, profit = 2.1\<rparr>), (''CAD'', \<lparr>stop = 1.4, profit = 2.2\<rparr>),
    (''SGD'', \<lparr>stop = 1.3, profit = 2.3\<rparr>), (''HKD'', \<lparr>stop = 1.2, profit = 2.4\<rparr>),
    (''NOK'', \<lparr>stop = 1.4, profit = 2.2\<rparr>), (''SEK'', \<lparr>stop = 1.3, profit = 2.3\<rparr>),
    (''DKK'', \<lparr>stop = 1.2, profit = 2.5\<rparr>), (''ZAR'', \<lparr>stop = 1.5, profit = 2.0\<rparr>),
    (''MXN'', \<lparr>stop = 1.6, profit = 1.9\<rparr>), (''TRY'', \<lparr>stop = 1.7, profit = 1.8\<rparr>),
    (''RUB'', \<lparr>stop = 1.8, profit = 1.7\<rparr>), (''INR'', \<lparr>stop = 1.5, profit = 2.0\<rparr>),
    (''BRL'', \<lparr>stop = 1.6, profit = 1.9\<rparr>), (''CNY'', \<lparr>stop = 1.4, profit = 2.2\<rparr>),
    (''KRW'', \<lparr>stop = 1.3, profit = 2.3\<rparr>), (''TWD'', \<lparr>stop = 1.2, profit = 2.4\<rparr>),
    (''MYR'', \<lparr>stop = 1.5, profit = 2.1\<rparr>), (''IDR'', \<lparr>stop = 1.6, profit = 1.9\<rparr>),
    (''THB'', \<lparr>stop = 1.4, profit = 2.2\<rparr>), (''PHP'', \<lparr>stop = 1.5, profit = 2.0\<rparr>),
    (''PLN'', \<lparr>stop = 1.3, profit = 2.3\<rparr>), (''HUF'', \<lparr>stop = 1.4, profit = 2.2\<rparr>),
    (''CZK'', \<lparr>stop = 1.3, profit = 2.3\<rparr>), (''ILS'', \<lparr>stop = 1.2, profit = 2.4\<rparr>),
    (''SAR'', \<lparr>stop = 1.5, profit = 2.1\<rparr>), (''AED'', \<lparr>stop = 1.4, profit = 2.2\<rparr>),
    (''QAR'', \<lparr>stop = 1.3, profit = 2.3\<rparr>), (''KWD'', \<lparr>stop = 1.2, profit = 2.4\<rparr>),
    (''BHD'', \<lparr>stop = 1.3, profit = 2.3\<rparr>), (''OMR'', \<lparr>stop = 1.2, profit = 2.4\<rparr>),
    (''JOD'', \<lparr>stop = 1.3, profit = 2.3\<rparr>), (''EGP'', \<lparr>stop = 1.5, profit = 2.0\<rparr>),
    (''NGN'', \<lparr>stop = 1.6, profit = 1.9\<rparr>), (''KES'', \<lparr>stop = 1.5, profit = 2.0\<rparr>),
    (''GHS'', \<lparr>stop = 1.6, profit = 1.9\<rparr>), (''TZS'', \<lparr>stop = 1.5, profit = 2.0\<rparr>),
    (''UGX'', \<lparr>stop = 1.6, profit = 1.9\<rparr>), (''ZMW'', \<lparr>stop = 1.7, profit = 1.8\<rparr>),
    (''MAD'', \<lparr>stop = 1.5, profit = 2.0\<rparr>), (''DZD'', \<lparr>stop = 1.6, profit = 1.9\<rparr>),
    (''TND'', \<lparr>stop = 1.5, profit = 2.0\<rparr>), (''LBP'', \<lparr>stop = 1.7, profit = 1.8\<rparr>),
    (''JMD'', \<lparr>stop = 1.6, profit = 1.9\<rparr>), (''TTD'', \<lparr>stop = 1.5, profit = 2.0\<rparr>),
    (''BBD'', \<lparr>stop = 1.6, profit = 1.9\<rparr>), (''BZD'', \<lparr>stop = 1.5, profit = 2.0\<rparr>),
    (''BMD'', \<lparr>stop = 1.4, profit = 2.2\<rparr>), (''BSD'', \<lparr>stop = 1.4, profit = 2.2\<rparr>),
    (''KYD'', \<lparr>stop = 1.3, profit = 2.3\<rparr>), (''XCD'', \<lparr>stop = 1.4, profit = 2.2\<rparr>),
    (''ANG'', \<lparr>stop = 1.3, profit = 2.3\<rparr>), (''AWG'', \<lparr>stop = 1.3, profit = 2.3\<rparr>),
    (''BIF'', \<lparr>stop = 1.6, profit = 1.9\<rparr>), (''CDF'', \<lparr>stop = 1.7, profit = 1.8\<rparr>),
    (''DJF'', \<lparr>stop = 1.5, profit = 2.0\<rparr>), (''ERN'', \<lparr>stop = 1.6, profit = 1.9\<rparr>),
    (''ETB'', \<lparr>stop = 1.7, profit = 1.8\<rparr>), (''GMD'', \<lparr>stop = 1.6, profit = 1.9\<rparr>),
    (''GNF'', \<lparr>stop = 1.7, profit = 1.8\<rparr>), (''LSL'', \<lparr>stop = 1.6, profit = 1.9\<rparr>),
    (''LRD'', \<lparr>stop = 1.7, profit = 1.8\<rparr>), (''MWK'', \<lparr>stop = 1.6, profit = 1.9\<rparr>),
    (''MRO'', \<lparr>stop = 1.7, profit = 1.8\<rparr>), (''MUR'', \<lparr>stop = 1.6, profit = 1.9\<rparr>),
    (''MZN'', \<lparr>stop = 1.7, profit = 1.8\<rparr>), (''NAD'', \<lparr>stop = 1.6, profit = 1.9\<rparr>),
    (''RWF'', \<lparr>stop = 1.7, profit = 1.8\<rparr>), (''SCR'', \<lparr>stop = 1.6, profit = 1.9\<rparr>),
    (''SLL'', \<lparr>stop = 1.7, profit = 1.8\<rparr>), (''SOS'', \<lparr>stop = 1.6, profit = 1.9\<rparr>),
    (''SSP'', \<lparr>stop = 1.7, profit = 1.8\<rparr>), (''SDG'', \<lparr>stop = 1.6, profit = 1.9\<rparr>),
    (''SZL'', \<lparr>stop = 1.6, profit = 1.9\<rparr>), (''TJS'', \<lparr>stop = 1.7, profit = 1.8\<rparr>),
    (''TMT'', \<lparr>stop = 1.6, profit = 1.9\<rparr>), (''UGX'', \<lparr>stop = 1.6, profit = 1.9\<rparr>),
    (''UZS'', \<lparr>stop = 1.7, profit = 1.8\<rparr>), (''VND'', \<lparr>stop = 1.6, profit = 1.9\<rparr>),
    (''XAF'', \<lparr>stop = 1.6, profit = 1.9\<rparr>), (''XOF'', \<lparr>stop = 1.6, profit = 1.9\<rparr>),
    (''XPF'', \<lparr>stop = 1.6, profit = 1.9\<rparr>), (''YER'', \<lparr>stop = 1.7, profit = 1.8\<rparr>),
    (''ZWL'', \<lparr>stop = 1.7, profit = 1.8\<rparr>)]"

definition default_multipliers :: multipliers where
  "default_multipliers = \<lparr>stop = 1.3, profit = 2.3\<rparr>"

text \<open>The local table \<^verbatim>\<open>currency_volatility\<close> of \<^verbatim>\<open>_calculate_position_parameters\<close>.\<close>

definition currency_volatility :: "(string \<times> real) list" where
  "currency_volatility =
   [(''JPY'', 1.2), (''CHF'', 0.9), (''EUR'', 1.0), (''GBP'', 0.95),
    (''USD'', 1.0), (''AUD'', 0.85), (''NZD'', 0.85), (''CAD'', 0.9)]"

section \<open>The position sizer (forex\_data\_processor.py)\<close>

text \<open>\<^verbatim>\<open>_calculate_dynamic_distances\<close>: the stop and profit distances of a volatility regime.\<close>

definition calculate_dynamic_distances :: "real \<Rightarrow> real \<Rightarrow> real \<Rightarrow> string \<Rightarrow> real \<times> real" where
  "calculate_dynamic_distances volatility atr daily_range base_currency =
     (let mult = dict_get currency_multipliers base_currency default_multipliers;
          (stop_distance, profit_mult) =
            (if volatility < 0.005 then
               (max (atr * stop mult) (daily_range * 0.1), profit mult * 1.1)
             else if volatility < 0.01 then
               (max (atr * stop mult * 1.2) (daily_range * 0.15), profit mult)
             else
               (max (atr * stop mult * 1.4) (daily_range * 0.2), profit mult * 0.9));
          profit_distance = stop_distance * profit_mult
      in (stop_distance, profit_distance))"

text \<open>
  The dict returned by \<^verbatim>\<open>_calculate_position_parameters\<close>, one field per key. The six
  keys that \<^verbatim>\<open>load_market_data\<close> copies into the market data frame are declared once,
  in a parent record that the rows of the frame extend as well.
\<close>

record trade_columns =
  position_size :: real
  entry_price :: real
  take_profit :: real
  stop_loss :: real
  risk_reward :: real
  expected_return :: real

record position_parameters = trade_columns +
  entry_scale_1 :: real
  entry_scale_2 :: real
  confidence :: real
  risk_amount :: real
  volatility_class :: string
  position_adjustment :: real
  currency_adjustment :: real

text \<open>
  The block of \<^verbatim>\<open>_calculate_position_parameters\<close> that computes a first pair of
  distances from the regime alone (source lines 324 to 332).
\<close>

definition regime_distances :: "real \<Rightarrow> real \<Rightarrow> real \<Rightarrow> real \<times> real" where
  "regime_distances volatility atr daily_range =
     (if volatility < 0.005 then
        (let stop_distance = max (atr * 1.2) (daily_range * 0.1) in (stop_distance, stop_distance * 2.8))
      else if volatility < 0.01 then
        (let stop_distance = max (atr * 1.5) (daily_range * 0.15) in (stop_distance, stop_distance * 2.3))
      else
        (let stop_distance = max (atr * 2.0) (daily_range * 0.2) in (stop_distance, stop_distance * 1.8)))"

text \<open>
  The tail of \<^verbatim>\<open>_calculate_position_parameters\<close>, from the entry levels to the returned
  dict (source lines 341 to 374); \<open>lot\<close> is the local variable \<^verbatim>\<open>base_lot\<close>. The three
  divisions are checked in the order in which Python evaluates them; a zero divisor is
  the \<^verbatim>\<open>ZeroDivisionError\<close> of Python floats.
\<close>

definition position_result ::
  "real \<Rightarrow> real \<Rightarrow> real \<Rightarrow> real \<Rightarrow> real \<Rightarrow> real \<Rightarrow> real \<Rightarrow> real \<Rightarrow> error + position_parameters" where
  "position_result current_price volatility lot volatility_adjustment currency_adj
       adjusted_position stop_distance profit_distance =
     (let entry_main = current_price;
          entry_scale_1 = current_price * 0.9995;
          entry_scale_2 = current_price * 0.9990;
          risk_amount = stop_distance * adjusted_position;
          potential_return = profit_distance * adjusted_position
      in if stop_distance = 0 then Inl ZeroDivisionError
         else
           let risk_reward_ratio = profit_distance / stop_distance;
               expected_value = (risk_reward_ratio * 0.45 - 0.55) * risk_amount
           in if volatility = 0 then Inl ZeroDivisionError
              else if lot = 0 then Inl ZeroDivisionError
              else
                let confidence_score =
                      min (risk_reward_ratio * 20 + 1 / volatility * 30
                             + adjusted_position / lot * 25 + 25) 100
                in Inr \<lparr>position_size = adjusted_position,
                         entry_price = entry_main,
                         take_profit = entry_main + profit_distance,
                         stop_loss = entry_main - stop_distance,
                         risk_reward = risk_reward_ratio,
                         expected_return = expected_value,
                         entry_scale_1 = entry_scale_1,
                         entry_scale_2 = entry_scale_2,
                         confidence = confidence_score,
                         risk_amount = risk_amount,
                         volatility_class =
                           (if volatility < 0.005 then ''Low''
                            else if volatility < 0.01 then ''Medium'' else ''High''),
                         position_adjustment = volatility_adjustment,
                         currency_adjustment = currency_adj\<rparr>)"

text \<open>
  \<^verbatim>\<open>_calculate_position_parameters\<close>. The second binding of
  \<open>(stop_distance, profit_distance)\<close> shadows the first, as the assignment at source line 336
  overwrites the variables set by the regime block.
\<close>

definition calculate_position_parameters :: "string \<Rightarrow> real \<Rightarrow> real \<Rightarrow> error + position_parameters" where
  "calculate_position_parameters base_currency current_price volatility =
     (let config = dict_get position_config base_currency default_config;
          base_lot = base_lot config;
          risk_factor = risk_factor config;
          atr = volatility * current_price;
          daily_range = atr * sqrt 252;
          volatility_adjustment =
            (if volatility > 0.015 then 0.7
             else if volatility > 0.008 then 0.85
             else if volatility < 0.004 then 1.2
             else 1.0);
          currency_adj = dict_get currency_volatility base_currency 1.0;
          adjusted_position = base_lot * volatility_adjustment * currency_adj;
          (stop_distance, profit_distance) = regime_distances volatility atr daily_range;
          min_pip_value = (if \<not> sublist ''JPY'' base_currency then 0.0001 else (0.01::real));
          (stop_distance, profit_distance) =
            calculate_dynamic_distances volatility atr daily_range base_currency
      in position_result current_price volatility base_lot volatility_adjustment currency_adj
           adjusted_position stop_distance profit_distance)"

text \<open>
  The same function with the regime block (source lines 324 to 332) deleted and nothing
  else changed.
\<close>

definition calculate_position_parameters_without_regime_block ::
  "string \<Rightarrow> real \<Rightarrow> real \<Rightarrow> error + position_parameters" where
  "calculate_position_parameters_without_regime_block base_currency current_price volatility =
     (let config = dict_get position_config base_currency default_config;
          base_lot = base_lot config;
          risk_factor = risk_factor config;
          atr = volatility * current_price;
          daily_range = atr * sqrt 252;
          volatility_adjustment =
            (if volatility > 0.015 then 0.7
             else if volatility > 0.008 then 0.85
             else if volatility < 0.004 then 1.2
             else 1.0);
          currency_adj = dict_get currency_volatility base_currency 1.0;
          adjusted_position = base_lot * volatility_adjustment * currency_adj;
          min_pip_value = (if \<not> sublist ''JPY'' base_currency then 0.0001 else (0.01::real));
          (stop_distance, profit_distance) =
            calculate_dynamic_distances volatility atr daily_range base_currency
      in position_result current_price volatility base_lot volatility_adjustment currency_adj
           adjusted_position stop_distance profit_distance)"

section \<open>Market data and ranking (forex\_data\_processor.py)\<close>

text \<open>
  The dict returned by \<^verbatim>\<open>get_summary\<close>. Of its computation only the RSI is modelled
  (above); the other entries are inputs here.
\<close>

record summary =
  current_rate :: real
  day_change_pct :: real
  rsi :: real
  trend :: string
  macd_signal :: string
  volatility :: real
  support :: real
  resistance :: real
  volume :: real

text \<open>
  A small market, used below as a concrete input: what the currency wrapper returns for
  three pairs; any other symbol has no data.
\<close>

definition example_summaries :: "string \<Rightarrow> error + summary" where
  "example_summaries pair_name =
     (if pair_name = ''EUR/USD'' then
        Inr \<lparr>current_rate = 1.1, day_change_pct = 0, rsi = 50, trend = ''Bullish'',
             macd_signal = ''Buy'', volatility = 0.004, support = 1.09, resistance = 1.11,
             volume = 0\<rparr>
      else if pair_name = ''GBP/USD'' then
        Inr \<lparr>current_rate = 1.3, day_change_pct = 5, rsi = 50, trend = ''Bullish'',
             macd_signal = ''Sell'', volatility = 0.004, support = 1.29, resistance = 1.31,
             volume = 0\<rparr>
      else if pair_name = ''USD/CHF'' then
        Inr \<lparr>current_rate = 0.9, day_change_pct = 0, rsi = 50, trend = ''Bullish'',
             macd_signal = ''Buy'', volatility = 0.004, support = 0.89, resistance = 0.91,
             volume = 0\<rparr>
      else Inl Exception)"

text \<open>
  \<^verbatim>\<open>_calculate_signal_strength\<close>. The class defines the method twice with the same body;
  the second definition is the one in effect.
\<close>

definition calculate_signal_strength :: "summary \<Rightarrow> position_parameters \<Rightarrow> real" where
  "calculate_signal_strength summary pos_params =
     (let score = 0;
          score = (if trend summary = ''Bullish'' \<and> macd_signal summary = ''Buy'' then score + 30
                   else if trend summary = ''Bearish'' \<and> macd_signal summary = ''Sell'' then score + 30
                   else score);
          score = (if trend summary = ''Bullish'' then
                     (if rsi summary < 30 then score + 25
                      else if rsi summary < 45 then score + 15
                      else score)
                   else
                     (if rsi summary > 70 then score + 25
                      else if rsi summary > 55 then score + 15
                      else score));
          rr_score = min (risk_reward pos_params * 10) 25;
          score = score + rr_score;
          vol_score = (1 - (volatility summary / 0.02)) * 20;
          score = score + max (min vol_score 20) 0
      in score)"

text \<open>\<^verbatim>\<open>str.split(sep)\<close> for a one-character separator.\<close>

fun split_on :: "char \<Rightarrow> string \<Rightarrow> string list" where
  "split_on c [] = [[]]"
| "split_on c (x # xs) =
     (if x = c then [] # split_on c xs
      else (case split_on c xs of [] \<Rightarrow> [[x]] | part # parts \<Rightarrow> (x # part) # parts))"

text \<open>
  A row of the frame built by \<^verbatim>\<open>load_market_data\<close>, one field per column; the
  \<^verbatim>\<open>timestamp\<close> column (the wall clock) is left out.
\<close>

record market_row = trade_columns +
  pair :: string
  base_currency :: string
  quote_currency :: string
  current_rate :: real
  day_change :: real
  trend :: string
  rsi :: real
  volatility :: real
  macd_signal :: string
  signal_strength :: real

text \<open>
  The body of the \<^verbatim>\<open>try\<close> in \<^verbatim>\<open>load_market_data\<close> for one pair. The currency wrapper is
  the parameter \<open>get_summary\<close>, which returns a summary or raises; a summary is a dict
  with nine entries, so the test \<^verbatim>\<open>if summary:\<close> always succeeds. Unpacking
  \<^verbatim>\<open>pair.split('/')\<close> into two names raises \<^verbatim>\<open>ValueError\<close> unless there are exactly two
  parts.
\<close>

definition load_row :: "(string \<Rightarrow> error + summary) \<Rightarrow> string \<Rightarrow> error + market_row" where
  "load_row get_summary pair_name =
     (case get_summary pair_name of
        Inl e \<Rightarrow> Inl e
      | Inr summary \<Rightarrow>
          (case split_on CHR ''/'' pair_name of
             [base, quote] \<Rightarrow>
               (case calculate_position_parameters base
                       (summary.current_rate summary) (summary.volatility summary) of
                  Inl e \<Rightarrow> Inl e
                | Inr pos_params \<Rightarrow>
                    Inr \<lparr>position_size = position_size pos_params,
                         entry_price = entry_price pos_params,
                         take_profit = take_profit pos_params,
                         stop_loss = stop_loss pos_params,
                         risk_reward = risk_reward pos_params,
                         expected_return = expected_return pos_params,
                         pair = pair_name,
                         base_currency = base,
                         quote_currency = quote,
                         current_rate = summary.current_rate summary,
                         day_change = day_change_pct summary,
                         trend = summary.trend summary,
                         rsi = summary.rsi summary,
                         volatility = summary.volatility summary,
                         macd_signal = summary.macd_signal summary,
                         signal_strength = calculate_signal_strength summary pos_params\<rparr>)
           | _ \<Rightarrow> Inl ValueError))"

text \<open>
  \<^verbatim>\<open>load_market_data\<close>: the loop over the available pairs. A pair whose body raises is
  reported and skipped. (For a pair whose volatility or rate is zero the model follows the
  Python float semantics of the position sizer and skips it.)
\<close>

fun load_market_data :: "(string \<Rightarrow> error + summary) \<Rightarrow> string list \<Rightarrow> market_row list" where
  "load_market_data get_summary [] = []"
| "load_market_data get_summary (pair_name # pairs) =
     (case load_row get_summary pair_name of
        Inl e \<Rightarrow> load_market_data get_summary pairs
      | Inr row \<Rightarrow> row # load_market_data get_summary pairs)"

text \<open>
  \<^verbatim>\<open>DataFrame.sort_values(column, ascending=False)\<close>. The call leaves the sorting
  algorithm at its default, \<^verbatim>\<open>kind='quicksort'\<close>, which pandas documents as not stable:
  the result is some arrangement of the rows in which the keys do not increase, and the
  order among rows with equal keys is not determined. The model is therefore a relation
  between the frame and a result.
\<close>

definition sort_values_descending :: "('a \<Rightarrow> real) \<Rightarrow> 'a list \<Rightarrow> 'a list \<Rightarrow> bool" where
  "sort_values_descending key rows result \<longleftrightarrow>
     mset result = mset rows \<and> sorted_wrt (\<lambda>a b. key b \<le> key a) result"

text \<open>
  \<^verbatim>\<open>get_top_opportunities\<close>, as a relation between the attribute \<^verbatim>\<open>self.market_data\<close>,
  the threshold and an outcome. When the frame is empty the method calls
  \<^verbatim>\<open>load_market_data\<close> and drops what it returns, so the frame is still the empty frame
  without columns of the constructor, and selecting the column \<^verbatim>\<open>'risk_reward'\<close> raises
  \<^verbatim>\<open>KeyError\<close>.
\<close>

definition get_top_opportunities :: "market_row list \<Rightarrow> real \<Rightarrow> error + market_row list \<Rightarrow> bool" where
  "get_top_opportunities market_data min_risk_reward outcome =
     (case outcome of
        Inl e \<Rightarrow> market_data = [] \<and> e = KeyError
      | Inr opportunities \<Rightarrow>
          market_data \<noteq> [] \<and>
          sort_values_descending signal_strength
            (filter (\<lambda>row. min_risk_reward \<le> risk_reward row) market_data) opportunities)"

section \<open>The opportunity scorer (dashboard.py)\<close>

text \<open>\<^verbatim>\<open>self.trading_config\<close>, with the values set in \<^verbatim>\<open>__init__\<close>.\<close>

record trading_config =
  min_risk_reward :: real
  min_confidence :: real
  max_volatility :: real
  rsi_oversold :: real
  rsi_overbought :: real

definition initial_trading_config :: trading_config where
  "initial_trading_config =
     \<lparr>min_risk_reward = 1.5, min_confidence = 60, max_volatility = 0.02,
      rsi_oversold = 30, rsi_overbought = 70\<rparr>"

text \<open>
  \<^verbatim>\<open>_calculate_opportunity_score\<close>. The row is a row of the market data frame, the trade
  parameters are the dict of the position sizer. The only operation that can raise is the
  division by the configured maximal volatility.
\<close>

definition calculate_opportunity_score ::
  "trading_config \<Rightarrow> market_row \<Rightarrow> position_parameters \<Rightarrow> error + real" where
  "calculate_opportunity_score config row trade_params =
     (let score = 0;
          score = (if trend row = ''Bullish'' \<and> expected_return trade_params > 0 then score + 30
                   else if trend row = ''Bearish'' \<and> expected_return trade_params < 0 then score + 30
                   else score);
          score = (if trend row = ''Bullish'' \<and> rsi row < rsi_oversold config then score + 20
                   else if trend row = ''Bearish'' \<and> rsi row > rsi_overbought config then score + 20
                   else score);
          rr_score = min (risk_reward trade_params * 10) 25;
          score = score + rr_score
      in if max_volatility config = 0 then Inl ZeroDivisionError
         else
           let vol_score = (1 - (volatility row / max_volatility config)) * 15;
               score = score + max vol_score 0;
               momentum_score = \<bar>day_change row\<bar> * 2;
               score = score + min momentum_score 10
           in Inr (min score 100))"

text \<open>
  An entry of the opportunity cache. The source merges the row, the trade parameters and
  the score into one dict; the record keeps the three apart.
\<close>

record opportunity =
  market :: market_row
  trade :: position_parameters
  opportunity_score :: real

text \<open>
  The loop of \<^verbatim>\<open>analyze_opportunities\<close>. Nothing is caught here: the first row whose
  position sizing or scoring raises ends the method with that error.
\<close>

fun analyze_rows :: "trading_config \<Rightarrow> market_row list \<Rightarrow> error + opportunity list" where
  "analyze_rows config [] = Inr []"
| "analyze_rows config (row # rows) =
     (case calculate_position_parameters (base_currency row) (current_rate row) (volatility row) of
        Inl e \<Rightarrow> Inl e
      | Inr trade_params \<Rightarrow>
          (case calculate_opportunity_score config row trade_params of
             Inl e \<Rightarrow> Inl e
           | Inr score \<Rightarrow>
               (case analyze_rows config rows of
                  Inl e \<Rightarrow> Inl e
                | Inr opportunities \<Rightarrow>
                    Inr (\<lparr>market = row, trade = trade_params, opportunity_score = score\<rparr>
                         # opportunities))))"

text \<open>
  \<^verbatim>\<open>analyze_opportunities\<close>, as a relation between the market data, the cache before the
  call and an outcome: the cache after the call, or an error. An empty frame leaves the
  cache as it is. All rows are kept; they are sorted by opportunity score.
\<close>

definition analyze_opportunities ::
  "trading_config \<Rightarrow> market_row list \<Rightarrow> opportunity list \<Rightarrow> error + opportunity list \<Rightarrow> bool" where
  "analyze_opportunities config market_data opportunity_cache outcome =
     (if market_data = [] then outcome = Inr opportunity_cache
      else
        (case analyze_rows config market_data of
           Inl e \<Rightarrow> outcome = Inl e
         | Inr opportunities \<Rightarrow>
             (case outcome of
                Inl e \<Rightarrow> False
              | Inr cache \<Rightarrow> sort_values_descending opportunity_score opportunities cache)))"

text \<open>
  Two frames that \<^verbatim>\<open>load_market_data\<close> builds from the example summaries above.
\<close>

definition two_pair_market :: "market_row list" where
  "two_pair_market = load_market_data example_summaries [''EUR/USD'', ''GBP/USD'']"

definition tied_market :: "market_row list" where
  "tied_market = load_market_data example_summaries [''EUR/USD'', ''USD/CHF'']"

section \<open>Properties of the risk profile tables\<close>

lemma dict_get_cases:
  "dict_get kvs k d = d \<or> (k, dict_get kvs k d) \<in> set kvs"
  unfolding dict_get_def by (auto split: option.splits dest!: map_of_SomeD)

lemma dict_get_all:
  assumes "P d" and "list_all (\<lambda>(k, v). P v) kvs"
  shows "P (dict_get kvs k d)"
  using dict_get_cases [of kvs k d] assms by (auto simp: list_all_iff)

lemma dict_get_miss:
  assumes "k \<notin> set (map fst kvs)"
  shows "dict_get kvs k d = d"
proof -
  have "k \<notin> fst ` set (rev kvs)" using assms by simp
  then have "map_of (rev kvs) k = None" by (simp add: map_of_eq_None_iff)
  then show ?thesis by (simp add: dict_get_def)
qed

lemma multipliers_positive:
  "0 < stop (dict_get currency_multipliers b default_multipliers) \<and>
   0 < profit (dict_get currency_multipliers b default_multipliers)"
  by (rule dict_get_all) (simp_all add: default_multipliers_def currency_multipliers_def)

lemma base_lot_positive: "0 < base_lot (dict_get position_config b default_config)"
  by (rule dict_get_all) (simp_all add: default_config_def position_config_def)

lemma currency_adj_positive: "0 < dict_get currency_volatility b (1.0::real)"
  by (rule dict_get_all) (simp_all add: currency_volatility_def)

text \<open>
  Claim C8, as the code has it. The table \<^verbatim>\<open>position_config\<close> has exactly the eight
  major currencies as keys, and every lookup of another code returns the default profile
  (base lot 100000, risk factor 1.0). The risk factors are not pairwise distinct: EUR
  and USD both have 1.0. The factors of the seven currencies other than USD are pairwise
  distinct.
\<close>

theorem position_config_covers_majors:
  "map fst position_config = [''EUR'', ''GBP'', ''USD'', ''JPY'', ''CHF'', ''AUD'', ''NZD'', ''CAD'']
   \<and> distinct (map (\<lambda>k. risk_factor (dict_get position_config k default_config))
                 [''EUR'', ''GBP'', ''JPY'', ''CHF'', ''AUD'', ''NZD'', ''CAD''])
   \<and> risk_factor (dict_get position_config ''USD'' default_config) = 1.0
   \<and> risk_factor (dict_get position_config ''EUR'' default_config) = 1.0
   \<and> (b \<notin> set (map fst position_config) \<longrightarrow>
        dict_get position_config b default_config = \<lparr>base_lot = 100000, risk_factor = 1.0\<rparr>)"
proof -
  have "b \<notin> set (map fst position_config) \<longrightarrow>
        dict_get position_config b default_config = \<lparr>base_lot = 100000, risk_factor = 1.0\<rparr>"
    using dict_get_miss [of b position_config default_config]
    by (simp add: default_config_def)
  moreover have "map fst position_config
      = [''EUR'', ''GBP'', ''USD'', ''JPY'', ''CHF'', ''AUD'', ''NZD'', ''CAD'']"
    by (simp add: position_config_def)
  moreover have "distinct (map (\<lambda>k. risk_factor (dict_get position_config k default_config))
                 [''EUR'', ''GBP'', ''JPY'', ''CHF'', ''AUD'', ''NZD'', ''CAD''])"
    by (simp add: position_config_def dict_get_def)
  moreover have "risk_factor (dict_get position_config ''USD'' default_config) = 1.0"
    "risk_factor (dict_get position_config ''EUR'' default_config) = 1.0"
    by (simp_all add: position_config_def dict_get_def)
  ultimately show ?thesis by blast
qed

theorem position_config_covers_majors_witness:
  "''XXX'' \<notin> set (map fst position_config)
   \<and> dict_get position_config ''XXX'' default_config = \<lparr>base_lot = 100000, risk_factor = 1.0\<rparr>"
proof -
  have miss: "''XXX'' \<notin> set (map fst position_config)"
    by (simp add: position_config_def)
  then show ?thesis
    using position_config_covers_majors [of "''XXX''"] by blast
qed

theorem risk_factors_not_pairwise_distinct:
  "''EUR'' \<noteq> ''USD''
   \<and> risk_factor (dict_get position_config ''EUR'' default_config)
     = risk_factor (dict_get position_config ''USD'' default_config)"
  by (simp add: position_config_def dict_get_def)

section \<open>Properties of the position sizer\<close>

lemma sqrt_252_bounds: "15.87 < sqrt 252" "sqrt 252 < 15.88"
  by (rule real_less_rsqrt, simp add: power2_eq_square)
     (rule real_less_lsqrt, simp_all add: power2_eq_square)

lemma position_result_error:
  "position_result p v lot va ca ap sd pd = Inl e \<longleftrightarrow>
     (sd = 0 \<or> v = 0 \<or> lot = 0) \<and> e = ZeroDivisionError"
  by (auto simp add: position_result_def Let_def)

text \<open>The function as one call of its tail, with the local variables written out.\<close>

lemma calc_unfold:
  "calculate_position_parameters b p v =
     position_result p v (base_lot (dict_get position_config b default_config))
       (if v > 0.015 then 0.7 else if v > 0.008 then 0.85 else if v < 0.004 then 1.2 else 1.0)
       (dict_get currency_volatility b 1.0)
       (base_lot (dict_get position_config b default_config)
          * (if v > 0.015 then 0.7 else if v > 0.008 then 0.85 else if v < 0.004 then 1.2 else 1.0)
          * dict_get currency_volatility b 1.0)
       (fst (calculate_dynamic_distances v (v * p) (v * p * sqrt 252) b))
       (snd (calculate_dynamic_distances v (v * p) (v * p * sqrt 252) b))"
  unfolding calculate_position_parameters_def
  by (simp add: Let_def split: prod.splits)

lemma dyn_fst:
  "fst (calculate_dynamic_distances v atr dr b) =
    (let m = stop (dict_get currency_multipliers b default_multipliers) in
     if v < 0.005 then max (atr * m) (dr * 0.1)
     else if v < 0.01 then max (atr * m * 1.2) (dr * 0.15)
     else max (atr * m * 1.4) (dr * 0.2))"
  by (simp add: calculate_dynamic_distances_def Let_def)

lemma dyn_snd:
  "snd (calculate_dynamic_distances v atr dr b) =
     fst (calculate_dynamic_distances v atr dr b) *
    (let m = profit (dict_get currency_multipliers b default_multipliers) in
     if v < 0.005 then m * 1.1
     else if v < 0.01 then m
     else m * 0.9)"
  by (simp add: calculate_dynamic_distances_def Let_def)

lemma stop_distance_positive:
  assumes "0 < atr" "0 < dr"
  shows "0 < fst (calculate_dynamic_distances v atr dr b)"
proof -
  have m: "0 < stop (dict_get currency_multipliers b default_multipliers)"
    using multipliers_positive by blast
  then have "0 < atr * stop (dict_get currency_multipliers b default_multipliers)"
    using assms by simp
  then show ?thesis using assms
    by (simp add: dyn_fst Let_def less_max_iff_disj)
qed

lemma profit_distance_positive:
  assumes "0 < atr" "0 < dr"
  shows "0 < snd (calculate_dynamic_distances v atr dr b)"
proof -
  have "0 < profit (dict_get currency_multipliers b default_multipliers)"
    using multipliers_positive by blast
  then show ?thesis
    unfolding dyn_snd Let_def using stop_distance_positive [OF assms, of v b] by simp
qed

text \<open>
  Both arguments of the \<^verbatim>\<open>max\<close> are multiples of the ATR proxy, so the stop distance
  vanishes exactly when the ATR proxy does, and is negative when the ATR proxy is.
\<close>

lemma stop_distance_zero_iff:
  "fst (calculate_dynamic_distances v atr (atr * sqrt 252) b) = 0 \<longleftrightarrow> atr = 0"
proof -
  have m: "0 < stop (dict_get currency_multipliers b default_multipliers)"
    using multipliers_positive by blast
  consider "atr < 0" | "atr = 0" | "0 < atr" by linarith
  then show ?thesis
  proof cases
    case 1
    let ?m = "stop (dict_get currency_multipliers b default_multipliers)"
    have a: "atr * ?m < 0" "atr * ?m * 1.2 < 0" "atr * ?m * 1.4 < 0"
      using 1 m by (simp_all add: mult_less_0_iff)
    have d: "atr * sqrt 252 * 0.1 < 0" "atr * sqrt 252 * 0.15 < 0" "atr * sqrt 252 * 0.2 < 0"
      using 1 by (simp_all add: mult_less_0_iff)
    have neg: "\<And>x y::real. x < 0 \<Longrightarrow> y < 0 \<Longrightarrow> max x y \<noteq> 0"
      by (simp add: max_def)
    have "fst (calculate_dynamic_distances v atr (atr * sqrt 252) b) \<noteq> 0"
      unfolding dyn_fst Let_def using neg [OF a(1) d(1)] neg [OF a(2) d(2)] neg [OF a(3) d(3)]
      by presburger
    then show ?thesis using 1 by simp
  next
    case 2
    then show ?thesis by (simp add: dyn_fst Let_def)
  next
    case 3
    then have "0 < fst (calculate_dynamic_distances v atr (atr * sqrt 252) b)"
      by (intro stop_distance_positive) simp_all
    then show ?thesis using 3 by simp
  qed
qed

lemma calc_error_iff:
  "calculate_position_parameters b p v = Inl e \<longleftrightarrow> (v = 0 \<or> p = 0) \<and> e = ZeroDivisionError"
proof -
  have "base_lot (dict_get position_config b default_config) \<noteq> 0"
    using base_lot_positive [of b] by simp
  moreover have "fst (calculate_dynamic_distances v (v * p) (v * p * sqrt 252) b) = 0 \<longleftrightarrow> v * p = 0"
    by (rule stop_distance_zero_iff)
  ultimately show ?thesis
    unfolding calc_unfold position_result_error by auto
qed

lemma calc_fields:
  assumes "calculate_position_parameters b p v = Inr pp"
  shows "entry_price pp = p"
    and "stop_loss pp = p - fst (calculate_dynamic_distances v (v * p) (v * p * sqrt 252) b)"
    and "take_profit pp = p + snd (calculate_dynamic_distances v (v * p) (v * p * sqrt 252) b)"
    and "risk_reward pp = snd (calculate_dynamic_distances v (v * p) (v * p * sqrt 252) b)
                          / fst (calculate_dynamic_distances v (v * p) (v * p * sqrt 252) b)"
    and "risk_amount pp = fst (calculate_dynamic_distances v (v * p) (v * p * sqrt 252) b) * position_size pp"
    and "expected_return pp = (risk_reward pp * 0.45 - 0.55) * risk_amount pp"
    and "position_size pp = base_lot (dict_get position_config b default_config)
          * (if v > 0.015 then 0.7 else if v > 0.008 then 0.85 else if v < 0.004 then 1.2 else 1.0)
          * dict_get currency_volatility b 1.0"
  using assms unfolding calc_unfold position_result_def Let_def
  by (auto split: if_splits)

lemma calc_returns:
  assumes "v \<noteq> 0" "p \<noteq> 0"
  shows "\<exists>pp. calculate_position_parameters b p v = Inr pp"
proof (cases "calculate_position_parameters b p v")
  case (Inl e)
  then show ?thesis using assms by (simp add: calc_error_iff)
next
  case (Inr pp)
  then show ?thesis by blast
qed

lemma position_size_positive:
  assumes "calculate_position_parameters b p v = Inr pp"
  shows "0 < position_size pp"
  using base_lot_positive [of b] currency_adj_positive [of b]
  by (simp add: calc_fields(7) [OF assms])

text \<open>
  Claim C2. For every call of the position sizer with a positive price \<open>p\<close> and a positive
  volatility \<open>v\<close>, the call returns, the returned levels satisfy
  stop\_loss < entry\_price < take\_profit, and risk\_reward equals
  (take\_profit - entry\_price) / (entry\_price - stop\_loss) over exact arithmetic.
\<close>

theorem levels_ordered_and_risk_reward_exact:
  assumes "0 < p" and "0 < v"
  shows "\<exists>pp. calculate_position_parameters b p v = Inr pp
           \<and> stop_loss pp < entry_price pp \<and> entry_price pp < take_profit pp
           \<and> risk_reward pp = (take_profit pp - entry_price pp) / (entry_price pp - stop_loss pp)"
proof -
  obtain pp where pp: "calculate_position_parameters b p v = Inr pp"
    using calc_returns [of v p b] assms by auto
  have sd: "0 < fst (calculate_dynamic_distances v (v * p) (v * p * sqrt 252) b)"
    using assms by (intro stop_distance_positive) simp_all
  have pd: "0 < snd (calculate_dynamic_distances v (v * p) (v * p * sqrt 252) b)"
    using assms by (intro profit_distance_positive) simp_all
  show ?thesis
    using pp sd pd by (intro exI [of _ pp]) (simp add: calc_fields [OF pp])
qed

theorem levels_ordered_and_risk_reward_exact_witness:
  "(0::real) < 1.1 \<and> (0::real) < 0.004 \<and>
   (\<exists>pp. calculate_position_parameters ''EUR'' 1.1 0.004 = Inr pp
           \<and> stop_loss pp < entry_price pp \<and> entry_price pp < take_profit pp
           \<and> risk_reward pp = (take_profit pp - entry_price pp) / (entry_price pp - stop_loss pp))"
  using levels_ordered_and_risk_reward_exact [of "1.1" "0.004" "''EUR''"] by simp

text \<open>
  Claim C4, as the code has it. Both arguments of the \<^verbatim>\<open>max\<close> in the stop distance are
  multiples of volatility times price, so the floor does not keep the stop distance away
  from zero: with a positive price and a volatility \<open>v \<ge> 0\<close>, the stop distance is zero
  exactly when \<open>v = 0\<close>, and positive exactly when \<open>v > 0\<close>. When \<open>v > 0\<close> the division
  profit\_distance / stop\_distance therefore has a non-zero divisor, and the call returns
  with risk\_reward equal to that quotient.
\<close>

theorem stop_distance_zero_only_at_zero_volatility:
  assumes "0 < p" and "0 \<le> v"
  shows "(fst (calculate_dynamic_distances v (v * p) (v * p * sqrt 252) b) = 0 \<longleftrightarrow> v = 0)
       \<and> (0 < fst (calculate_dynamic_distances v (v * p) (v * p * sqrt 252) b) \<longleftrightarrow> 0 < v)
       \<and> (0 < v \<longrightarrow>
            (\<exists>pp. calculate_position_parameters b p v = Inr pp
               \<and> risk_reward pp = snd (calculate_dynamic_distances v (v * p) (v * p * sqrt 252) b)
                                  / fst (calculate_dynamic_distances v (v * p) (v * p * sqrt 252) b)))"
proof -
  let ?sd = "fst (calculate_dynamic_distances v (v * p) (v * p * sqrt 252) b)"
  have z: "?sd = 0 \<longleftrightarrow> v = 0"
    using assms stop_distance_zero_iff [of v "v * p" b] by simp
  have "0 < ?sd" if "0 < v"
    using that assms by (intro stop_distance_positive) simp_all
  then have "0 < ?sd \<longleftrightarrow> 0 < v"
    using z assms(2) by (cases "v = 0") auto
  moreover have "\<exists>pp. calculate_position_parameters b p v = Inr pp
               \<and> risk_reward pp = snd (calculate_dynamic_distances v (v * p) (v * p * sqrt 252) b) / ?sd"
    if pos: "0 < v"
  proof -
    obtain pp where pp: "calculate_position_parameters b p v = Inr pp"
      using calc_returns [of v p b] pos assms(1) by auto
    then show ?thesis using calc_fields(4) [OF pp] by blast
  qed
  ultimately show ?thesis using z by blast
qed

theorem stop_distance_zero_only_at_zero_volatility_witness:
  "(0::real) < 1.1 \<and> (0::real) \<le> 0.004 \<and> (0::real) < 0.004 \<and>
   0 < fst (calculate_dynamic_distances 0.004 (0.004 * 1.1) (0.004 * 1.1 * sqrt 252) ''EUR'') \<and>
   (\<exists>pp. calculate_position_parameters ''EUR'' 1.1 0.004 = Inr pp
      \<and> risk_reward pp
          = snd (calculate_dynamic_distances 0.004 (0.004 * 1.1) (0.004 * 1.1 * sqrt 252) ''EUR'')
          / fst (calculate_dynamic_distances 0.004 (0.004 * 1.1) (0.004 * 1.1 * sqrt 252) ''EUR''))"
  using stop_distance_zero_only_at_zero_volatility [of "1.1" "0.004" "''EUR''"] by simp

text \<open>At volatility zero the divisor of the risk/reward division is zero.\<close>

theorem stop_distance_zero_at_zero_volatility:
  "(0::real) < 1 \<and> (0::real) \<le> 0 \<and>
   fst (calculate_dynamic_distances 0 (0 * 1) (0 * 1 * sqrt 252) ''EUR'') = 0"
  by (simp add: dyn_fst)

text \<open>
  Claim C7, as the code has it. The position sizer validates nothing and has no
  \<^verbatim>\<open>InvalidInputError\<close>: for every price and volatility other than zero, a negative
  price or a negative volatility included, the call returns a result computed from the
  inputs as given: the entry price is the price passed in, and the stop loss and the take
  profit lie at the stop and profit distances of these inputs from it.
\<close>

theorem position_sizer_validates_nothing:
  assumes "p \<noteq> 0" and "v \<noteq> 0"
  shows "\<exists>pp. calculate_position_parameters b p v = Inr pp
           \<and> entry_price pp = p
           \<and> stop_loss pp = p - fst (calculate_dynamic_distances v (v * p) (v * p * sqrt 252) b)
           \<and> take_profit pp = p + snd (calculate_dynamic_distances v (v * p) (v * p * sqrt 252) b)"
proof -
  obtain pp where pp: "calculate_position_parameters b p v = Inr pp"
    using calc_returns [OF assms(2) assms(1)] by blast
  show ?thesis
    using pp calc_fields(1,2,3) [OF pp] by blast
qed

theorem position_sizer_validates_nothing_witness:
  "(1.1::real) \<noteq> 0 \<and> (- 0.004::real) \<noteq> 0 \<and> (- 0.004::real) < 0 \<and>
   (\<exists>pp. calculate_position_parameters ''EUR'' 1.1 (- 0.004) = Inr pp
      \<and> entry_price pp = 1.1
      \<and> stop_loss pp = 1.1 - fst (calculate_dynamic_distances (- 0.004) (- 0.004 * 1.1)
                                    (- 0.004 * 1.1 * sqrt 252) ''EUR'')
      \<and> take_profit pp = 1.1 + snd (calculate_dynamic_distances (- 0.004) (- 0.004 * 1.1)
                                      (- 0.004 * 1.1 * sqrt 252) ''EUR''))"
  using position_sizer_validates_nothing [of "1.1" "- 0.004" "''EUR''"] by simp

text \<open>A negative price is accepted: the levels come out mirrored, the stop above the entry.\<close>

theorem negative_price_returns_a_result:
  "calculate_position_parameters ''EUR'' (- 1) 0.01 =
     Inr \<lparr>position_size = 85000, entry_price = - 1, take_profit = - 1.0378,
          stop_loss = - 0.9832, risk_reward = 2.25, expected_return = - 660.45,
          entry_scale_1 = - 0.9995, entry_scale_2 = - 0.999, confidence = 100,
          risk_amount = - 1428, volatility_class = ''High'', position_adjustment = 0.85,
          currency_adjustment = 1.0\<rparr>"
proof -
  have "(- 0.01 :: real) * sqrt 252 * 0.2 \<le> - 0.01 * 1.2 * 1.4"
    using sqrt_252_bounds(1) by simp
  then have m: "max ((- 0.01 :: real) * 1.2 * 1.4) (- 0.01 * sqrt 252 * 0.2) = - 0.0168"
    by (simp add: max_def)
  have d: "calculate_dynamic_distances (0.01::real) (0.01 * - 1) (0.01 * - 1 * sqrt 252) ''EUR''
     = (- 0.0168, - 0.0378)"
    using m by (simp add: calculate_dynamic_distances_def dict_get_def currency_multipliers_def Let_def)
  show ?thesis
    unfolding calc_unfold d
    by (simp add: position_result_def Let_def dict_get_def position_config_def
        currency_volatility_def)
qed

text \<open>
  Claim C10. For every position computation that returns, the risk amount is positive
  whenever price and volatility are, and whenever the risk amount is positive the
  expected return is positive if and only if risk\_reward > 11/9.
\<close>

theorem expected_return_positive_iff:
  assumes "calculate_position_parameters b p v = Inr pp"
  shows "(0 < p \<and> 0 < v \<longrightarrow> 0 < risk_amount pp)
       \<and> (0 < risk_amount pp \<longrightarrow> (0 < expected_return pp \<longleftrightarrow> 11/9 < risk_reward pp))"
proof -
  have "0 < risk_amount pp" if "0 < p" "0 < v"
  proof -
    have "0 < fst (calculate_dynamic_distances v (v * p) (v * p * sqrt 252) b)"
      using that by (intro stop_distance_positive) simp_all
    then show ?thesis
      using position_size_positive [OF assms] by (simp add: calc_fields(5) [OF assms])
  qed
  moreover have "0 < expected_return pp \<longleftrightarrow> 11/9 < risk_reward pp" if "0 < risk_amount pp"
  proof -
    have "0 < expected_return pp \<longleftrightarrow> 0 < risk_reward pp * 0.45 - 0.55"
      using that by (simp add: calc_fields(6) [OF assms] zero_less_mult_iff)
    also have "\<dots> \<longleftrightarrow> 11/9 < risk_reward pp" by (simp add: field_simps)
    finally show ?thesis .
  qed
  ultimately show ?thesis by blast
qed

lemma dyn_EUR_low:
  "calculate_dynamic_distances 0.004 (0.004 * 1.1) (0.004 * 1.1 * sqrt 252) ''EUR''
     = (0.00044 * sqrt 252, 0.00121 * sqrt 252)"
proof -
  have "(0.0044::real) * 1.2 \<le> 0.0044 * sqrt 252 * 0.1"
    using sqrt_252_bounds(1) by simp
  then have "max ((0.0044::real) * 1.2) (0.0044 * sqrt 252 * 0.1) = 0.00044 * sqrt 252"
    by (simp add: max_def)
  then show ?thesis
    by (simp add: calculate_dynamic_distances_def dict_get_def currency_multipliers_def Let_def)
qed

lemma calc_EUR_low:
  "calculate_position_parameters ''EUR'' 1.1 0.004 =
     Inr \<lparr>position_size = 100000, entry_price = 1.1,
          take_profit = 1.1 + 0.00121 * sqrt 252, stop_loss = 1.1 - 0.00044 * sqrt 252,
          risk_reward = 2.75, expected_return = 30.25 * sqrt 252,
          entry_scale_1 = 1.09945, entry_scale_2 = 1.0989, confidence = 100,
          risk_amount = 44 * sqrt 252, volatility_class = ''Low'',
          position_adjustment = 1.0, currency_adjustment = 1.0\<rparr>"
proof -
  have s: "sqrt 252 \<noteq> 0" using sqrt_252_bounds(1) by simp
  show ?thesis
    unfolding calc_unfold dyn_EUR_low
    using s by (simp add: position_result_def Let_def dict_get_def position_config_def
        currency_volatility_def)
qed

theorem expected_return_positive_iff_witness:
  "calculate_position_parameters ''EUR'' 1.1 0.004 =
     Inr \<lparr>position_size = 100000, entry_price = 1.1,
          take_profit = 1.1 + 0.00121 * sqrt 252, stop_loss = 1.1 - 0.00044 * sqrt 252,
          risk_reward = 2.75, expected_return = 30.25 * sqrt 252,
          entry_scale_1 = 1.09945, entry_scale_2 = 1.0989, confidence = 100,
          risk_amount = 44 * sqrt 252, volatility_class = ''Low'',
          position_adjustment = 1.0, currency_adjustment = 1.0\<rparr>
   \<and> (0::real) < 1.1 \<and> (0::real) < 0.004
   \<and> (0::real) < 44 * sqrt 252 \<and> (0::real) < 30.25 * sqrt 252 \<and> (11/9 :: real) < 2.75"
  using expected_return_positive_iff [OF calc_EUR_low] calc_EUR_low by simp

text \<open>
  Claim C5, as the code has it. For EUR at price 1.1000 and volatility 0.004 the
  volatility adjustment is 1.0, not 1.2, because the test is the strict
  \<^verbatim>\<open>volatility < 0.004\<close>; the position size is 100000. The other figures are as
  stated, up to rounding: atr = 0.0044, daily\_range = 0.0044 \<open>\<surd>\<close>252 (between 0.0698 and
  0.0699), stop\_distance = max(0.0044 \<times> 1.2, daily\_range \<times> 0.10) = 0.00044 \<open>\<surd>\<close>252 (between
  0.00698 and 0.00699), profit\_distance = stop\_distance \<times> 2.5 \<times> 1.1 (between 0.0192 and
  0.01922), and risk\_reward = 2.75.
\<close>

theorem eur_low_volatility_scenario:
  "calculate_position_parameters ''EUR'' 1.1 0.004 =
     Inr \<lparr>position_size = 100000, entry_price = 1.1,
          take_profit = 1.1 + 0.00121 * sqrt 252, stop_loss = 1.1 - 0.00044 * sqrt 252,
          risk_reward = 2.75, expected_return = 30.25 * sqrt 252,
          entry_scale_1 = 1.09945, entry_scale_2 = 1.0989, confidence = 100,
          risk_amount = 44 * sqrt 252, volatility_class = ''Low'',
          position_adjustment = 1.0, currency_adjustment = 1.0\<rparr>
   \<and> (0.004::real) * 1.1 = 0.0044
   \<and> calculate_dynamic_distances 0.004 0.0044 (0.0044 * sqrt 252) ''EUR''
       = (max (0.0044 * 1.2) (0.0044 * sqrt 252 * 0.10), 0.00044 * sqrt 252 * (2.5 * 1.1))
   \<and> max (0.0044 * 1.2) (0.0044 * sqrt 252 * 0.10) = 0.00044 * sqrt 252
   \<and> 0.0698 < 0.0044 * sqrt 252 \<and> 0.0044 * sqrt 252 < 0.0699
   \<and> 0.00698 < 0.00044 * sqrt 252 \<and> 0.00044 * sqrt 252 < 0.00699
   \<and> 0.0192 < 0.00044 * sqrt 252 * (2.5 * 1.1) \<and> 0.00044 * sqrt 252 * (2.5 * 1.1) < 0.01922"
proof -
  have m: "max ((0.0044::real) * 1.2) (0.0044 * sqrt 252 * 0.10) = 0.00044 * sqrt 252"
    using sqrt_252_bounds(1) by (simp add: max_def)
  have d: "calculate_dynamic_distances 0.004 0.0044 (0.0044 * sqrt 252) ''EUR''
       = (max (0.0044 * 1.2) (0.0044 * sqrt 252 * 0.10), 0.00044 * sqrt 252 * (2.5 * 1.1))"
    using dyn_EUR_low m by simp
  have b: "0.0698 < 0.0044 * sqrt 252" "0.0044 * sqrt 252 < 0.0699"
    "0.00698 < 0.00044 * sqrt 252" "0.00044 * sqrt 252 < 0.00699"
    "0.0192 < 0.00044 * sqrt 252 * (2.5 * 1.1)" "0.00044 * sqrt 252 * (2.5 * 1.1) < 0.01922"
    using sqrt_252_bounds by simp_all
  show ?thesis
    using calc_EUR_low m d b by (intro conjI) simp_all
qed

text \<open>The position size of the scenario is 100000, not 120000.\<close>

theorem eur_position_size_is_100000:
  "map_sum id position_size (calculate_position_parameters ''EUR'' 1.1 0.004) = Inr 100000
   \<and> \<not> (0.004::real) < 0.004"
  unfolding calc_EUR_low by simp

section \<open>Properties of the RSI\<close>

lemma length_diff [simp]: "length (diff xs) = length xs"
  by (cases xs) simp_all

lemma length_rolling_mean [simp]: "length (rolling_mean w xs) = length xs"
  by (simp add: rolling_mean_def)

lemma length_gain_series [simp]: "length (gain_series close) = length close"
  by (simp add: gain_series_def series_where_def delta_series_def)

lemma length_loss_series [simp]: "length (loss_series close) = length close"
  by (simp add: loss_series_def series_where_def delta_series_def)

lemma last_rolling_mean:
  assumes "xs \<noteq> []"
  shows "last (rolling_mean w xs) = window_mean w (drop (length xs - w) xs)"
proof -
  have "[0..<length xs] \<noteq> []" using assms by simp
  then have "last (rolling_mean w xs)
      = window_mean w (drop (last [0..<length xs] + 1 - w) (take (last [0..<length xs] + 1) xs))"
    unfolding rolling_mean_def by (simp add: last_map)
  moreover have "last [0..<length xs] = length xs - 1"
    using assms by (simp add: last_upt)
  ultimately show ?thesis using assms by (simp add: Suc_diff_le)
qed

lemma last_map2:
  assumes "length xs = length ys" "xs \<noteq> []"
  shows "last (map2 f xs ys) = f (last xs) (last ys)"
proof -
  have "zip xs ys \<noteq> []" using assms by (cases xs; cases ys) simp_all
  then have "last (map2 f xs ys) = (case last (zip xs ys) of (x, y) \<Rightarrow> f x y)"
    by (simp add: last_map)
  moreover have "ys \<noteq> []" using assms by auto
  then have "last (zip xs ys) = (last xs, last ys)"
    using assms by (simp add: last_zip)
  ultimately show ?thesis by simp
qed

lemma series_nonempty:
  assumes "close \<noteq> []"
  shows "gain_series close \<noteq> []" "loss_series close \<noteq> []"
  using assms length_gain_series [of close] length_loss_series [of close]
  by (metis length_0_conv)+

lemma last_rs_series:
  assumes "close \<noteq> []"
  shows "last (rs_series close) = fdiv (last (gain_series close)) (last (loss_series close))"
  unfolding rs_series_def using series_nonempty [OF assms] by (intro last_map2) simp_all

lemma rsi_value_eq:
  assumes "close \<noteq> []"
  shows "rsi_value close =
     Inr (fsub (Fin 100) (fillna (Fin 50) (fdiv (Fin 100)
            (fadd (Fin 1) (fdiv (last (gain_series close)) (last (loss_series close)))))))"
proof -
  have ne: "rs_series close \<noteq> []"
    using series_nonempty [OF assms] by (simp add: rs_series_def)
  let ?x = "fillna (Fin 50) (fdiv (Fin 100)
            (fadd (Fin 1) (fdiv (last (gain_series close)) (last (loss_series close)))))"
  have l: "last (rsi_series close) = fsub (Fin 100) ?x"
    unfolding rsi_series_def using ne by (simp add: last_map last_rs_series [OF assms])
  have "\<not> isnan ?x" by (simp add: fillna_def isnan_def)
  then have "\<not> isnan (fsub (Fin 100) ?x)"
    by (cases ?x) (simp_all add: fsub_def isnan_def)
  then show ?thesis using assms l by (simp add: rsi_value_def Let_def)
qed

lemma foldl_fadd_nonneg:
  assumes "list_all nonneg_fin ws" "0 \<le> s"
  shows "\<exists>t\<ge>0. foldl fadd (Fin s) ws = Fin t"
  using assms
proof (induction ws arbitrary: s)
  case Nil
  then show ?case by simp
next
  case (Cons w ws)
  then obtain a where a: "w = Fin a" "0 \<le> a"
    by (cases w) (simp_all add: nonneg_fin_def)
  have "\<exists>t\<ge>0. foldl fadd (Fin (s + a)) ws = Fin t"
    using Cons.prems a by (intro Cons.IH) simp_all
  then show ?case using a by simp
qed

lemma window_mean_nonneg:
  assumes "list_all nonneg_fin ws" "14 \<le> length ws"
  shows "\<exists>t\<ge>0. window_mean 14 ws = Fin t"
proof -
  obtain t where t: "0 \<le> t" "foldl fadd (Fin 0) ws = Fin t"
    using foldl_fadd_nonneg [OF assms(1), of 0] by auto
  have "\<not> list_ex isnan ws"
    using assms(1) by (auto simp: list_ex_iff list_all_iff nonneg_fin_def isnan_def split: float64.splits)
  then have "window_mean 14 ws = Fin (t / 14)"
    using assms(2) t by (simp add: window_mean_def)
  then show ?thesis using t by (intro exI [of _ "t / 14"]) simp
qed

lemma list_all_drop: "list_all P xs \<Longrightarrow> list_all P (drop n xs)"
  by (auto simp: list_all_iff dest: in_set_dropD)

lemma diff_nonempty: "xs \<noteq> [] \<Longrightarrow> diff xs \<noteq> []"
  by (cases xs) simp_all

lemma window_mean_short:
  assumes "length ws < w"
  shows "window_mean w ws = NaN"
  using assms by (simp add: window_mean_def)

lemma diff_entries: "x \<in> set (diff xs) \<Longrightarrow> x = NaN \<or> (\<exists>a. x = Fin a)"
  by (cases xs) (auto simp: in_set_zip)

lemma gain_terms_nonneg:
  "list_all nonneg_fin (series_where gt_zero (Fin 0) (delta_series close))"
proof -
  have "nonneg_fin (if gt_zero x then x else Fin 0)" if "x \<in> set (diff close)" for x
    using diff_entries [OF that] by (auto simp: nonneg_fin_def)
  then have "list_all (\<lambda>x. nonneg_fin (if gt_zero x then x else Fin 0)) (diff close)"
    unfolding list_all_iff by blast
  then show ?thesis
    unfolding series_where_def delta_series_def by (simp only: list.pred_map comp_def)
qed

lemma loss_terms_nonneg:
  "list_all nonneg_fin (map fneg (series_where lt_zero (Fin 0) (delta_series close)))"
proof -
  have "nonneg_fin (fneg (if lt_zero x then x else Fin 0))" if "x \<in> set (diff close)" for x
    using diff_entries [OF that] by (auto simp: nonneg_fin_def)
  then have "list_all (\<lambda>x. nonneg_fin (fneg (if lt_zero x then x else Fin 0))) (diff close)"
    unfolding list_all_iff by blast
  then show ?thesis
    unfolding series_where_def delta_series_def by (simp only: list.pred_map comp_def)
qed

lemma last_gain_series:
  assumes "close \<noteq> []"
  shows "last (gain_series close) =
     window_mean 14 (drop (length close - 14) (series_where gt_zero (Fin 0) (delta_series close)))"
  unfolding gain_series_def using assms
  by (subst last_rolling_mean) (simp_all add: series_where_def delta_series_def diff_nonempty)

lemma last_loss_series:
  assumes "close \<noteq> []"
  shows "last (loss_series close) =
     window_mean 14 (drop (length close - 14)
        (map fneg (series_where lt_zero (Fin 0) (delta_series close))))"
  unfolding loss_series_def using assms
  by (subst last_rolling_mean) (simp_all add: series_where_def delta_series_def diff_nonempty)

lemma averages_short:
  assumes "close \<noteq> []" "length close < 14"
  shows "last (gain_series close) = NaN" "last (loss_series close) = NaN"
  using assms
  by (simp_all add: last_gain_series last_loss_series window_mean_short series_where_def
      delta_series_def)

lemma averages_full:
  assumes "14 \<le> length close"
  shows "\<exists>g\<ge>0. last (gain_series close) = Fin g" "\<exists>l\<ge>0. last (loss_series close) = Fin l"
proof -
  have ne: "close \<noteq> []" using assms by auto
  have "list_all nonneg_fin (drop (length close - 14) (series_where gt_zero (Fin 0) (delta_series close)))"
    using gain_terms_nonneg [of close] by (rule list_all_drop)
  moreover have "14 \<le> length (drop (length close - 14) (series_where gt_zero (Fin 0) (delta_series close)))"
    using assms by (simp add: series_where_def delta_series_def)
  ultimately show "\<exists>g\<ge>0. last (gain_series close) = Fin g"
    unfolding last_gain_series [OF ne] by (rule window_mean_nonneg)
  have "list_all nonneg_fin (drop (length close - 14)
        (map fneg (series_where lt_zero (Fin 0) (delta_series close))))"
    using loss_terms_nonneg [of close] by (rule list_all_drop)
  moreover have "14 \<le> length (drop (length close - 14)
        (map fneg (series_where lt_zero (Fin 0) (delta_series close))))"
    using assms by (simp add: series_where_def delta_series_def)
  ultimately show "\<exists>l\<ge>0. last (loss_series close) = Fin l"
    unfolding last_loss_series [OF ne] by (rule window_mean_nonneg)
qed

text \<open>
  Claim C6, as the code has it. For every non-empty close series, the RSI stored in the
  summary is 50 whenever the RSI expression is undefined (NaN), which is the case when
  fewer than 14 closes are available and when the average gain and the average loss are
  both zero. A zero average loss alone does not give 50: with a zero average loss and a
  positive average gain, the quotient is infinite and the RSI is 100.
\<close>

theorem rsi_default_when_undefined:
  assumes "close \<noteq> []"
  shows "(isnan (fdiv (Fin 100) (fadd (Fin 1) (last (rs_series close))))
            \<longrightarrow> rsi_value close = Inr (Fin 50))
       \<and> (length close < 14 \<longrightarrow> rsi_value close = Inr (Fin 50))
       \<and> (last (loss_series close) = Fin 0 \<longrightarrow>
            rsi_value close = Inr (Fin (if last (gain_series close) = Fin 0 then 50 else 100)))"
proof (intro conjI impI)
  assume "isnan (fdiv (Fin 100) (fadd (Fin 1) (last (rs_series close))))"
  then show "rsi_value close = Inr (Fin 50)"
    by (simp add: rsi_value_eq [OF assms] last_rs_series [OF assms] fillna_def fsub_def)
next
  assume "length close < 14"
  then show "rsi_value close = Inr (Fin 50)"
    using averages_short [OF assms]
    by (simp add: rsi_value_eq [OF assms] fillna_def fsub_def isnan_def)
next
  assume l: "last (loss_series close) = Fin 0"
  have "14 \<le> length close"
  proof (rule ccontr)
    assume "\<not> 14 \<le> length close"
    then have "last (loss_series close) = NaN"
      using averages_short(2) [OF assms] by simp
    then show False using l by simp
  qed
  then obtain g where g: "0 \<le> g" "last (gain_series close) = Fin g"
    using averages_full(1) by blast
  show "rsi_value close = Inr (Fin (if last (gain_series close) = Fin 0 then 50 else 100))"
  proof (cases "g = 0")
    case True
    then show ?thesis
      using g l by (simp add: rsi_value_eq [OF assms] fillna_def fsub_def isnan_def)
  next
    case False
    then have "0 < g" using g by simp
    then show ?thesis
      using g l by (simp add: rsi_value_eq [OF assms] fillna_def fsub_def isnan_def)
  qed
qed

lemma rising_averages:
  "last (gain_series [1, 2, 3, 4, 5, 6, 7, 8, 9, 10, 11, 12, 13, 14, 15]) = Fin 1"
  "last (loss_series [1, 2, 3, 4, 5, 6, 7, 8, 9, 10, 11, 12, 13, 14, 15]) = Fin 0"
  by (simp_all add: last_gain_series last_loss_series delta_series_def series_where_def
      window_mean_def isnan_def)

text \<open>Fifteen rising closes: the average loss is zero and the RSI is 100, not 50.\<close>

theorem rsi_is_100_on_rising_series:
  "last (loss_series [1, 2, 3, 4, 5, 6, 7, 8, 9, 10, 11, 12, 13, 14, 15]) = Fin 0
   \<and> rsi_value [1, 2, 3, 4, 5, 6, 7, 8, 9, 10, 11, 12, 13, 14, 15] = Inr (Fin 100)"
  by (simp add: rising_averages rsi_value_eq fillna_def fsub_def isnan_def)

theorem rsi_default_when_undefined_witness:
  "[1::real] \<noteq> [] \<and> length [1::real] < 14 \<and> rsi_value [1] = Inr (Fin 50)
   \<and> [7, 7, 7, 7, 7, 7, 7, 7, 7, 7, 7, 7, 7, 7, 7 :: real] \<noteq> []
   \<and> last (loss_series [7, 7, 7, 7, 7, 7, 7, 7, 7, 7, 7, 7, 7, 7, 7]) = Fin 0
   \<and> last (gain_series [7, 7, 7, 7, 7, 7, 7, 7, 7, 7, 7, 7, 7, 7, 7]) = Fin 0
   \<and> isnan (fdiv (Fin 100) (fadd (Fin 1) (last (rs_series [7, 7, 7, 7, 7, 7, 7, 7, 7, 7, 7, 7, 7, 7, 7]))))
   \<and> rsi_value [7, 7, 7, 7, 7, 7, 7, 7, 7, 7, 7, 7, 7, 7, 7] = Inr (Fin 50)"
proof -
  let ?flat = "[7, 7, 7, 7, 7, 7, 7, 7, 7, 7, 7, 7, 7, 7, 7 :: real]"
  have a: "last (loss_series ?flat) = Fin 0" "last (gain_series ?flat) = Fin 0"
    by (simp_all add: last_gain_series last_loss_series delta_series_def series_where_def
      window_mean_def isnan_def)
  have n: "isnan (fdiv (Fin 100) (fadd (Fin 1) (last (rs_series ?flat))))"
    by (simp add: last_rs_series a isnan_def)
  have "rsi_value [1] = Inr (Fin 50)"
    using rsi_default_when_undefined [of "[1]"] by simp
  moreover have "rsi_value ?flat = Inr (Fin 50)"
    using rsi_default_when_undefined [of ?flat] a by simp
  ultimately show ?thesis using a n by simp
qed

section \<open>Properties of the opportunity scorer\<close>

lemma if_add_const:
  "(if c then (x::real) + k else if c' then x + k else x) = x + (if c then k else if c' then k else 0)"
  by simp

lemma opportunity_score_eq:
  assumes "max_volatility cfg \<noteq> 0"
  shows "calculate_opportunity_score cfg row tp =
     Inr (min (0 + (if trend row = ''Bullish'' \<and> expected_return tp > 0 then 30
            else if trend row = ''Bearish'' \<and> expected_return tp < 0 then 30 else 0)
       + (if trend row = ''Bullish'' \<and> rsi row < rsi_oversold cfg then 20
            else if trend row = ''Bearish'' \<and> rsi row > rsi_overbought cfg then 20 else 0)
       + min (risk_reward tp * 10) 25
       + max ((1 - (volatility row / max_volatility cfg)) * 15) 0
       + min (\<bar>day_change row\<bar> * 2) 10) 100)"
  unfolding calculate_opportunity_score_def Let_def if_add_const
  using assms by (simp only: if_False)


text \<open>
  Claim C1. For every market row with volatility \<open>\<ge> 0\<close> and RSI in \<open>[0, 100]\<close> (the day change
  is any real) and every trade parameter record with risk\_reward \<open>> 0\<close>, the scorer returns
  a score in the closed interval \<open>[0, 100]\<close>. The maximal volatility of the trading
  configuration is only required to be positive; it is 0.02 in the configuration the
  dashboard starts with.
\<close>

theorem opportunity_score_bounded:
  assumes "0 \<le> volatility row" and "0 \<le> rsi row" and "rsi row \<le> 100"
    and "0 < risk_reward tp" and "0 < max_volatility cfg"
  shows "\<exists>s. calculate_opportunity_score cfg row tp = Inr s \<and> 0 \<le> s \<and> s \<le> 100"
proof -
  define a :: real where "a = (if trend row = ''Bullish'' \<and> expected_return tp > 0 then 30
            else if trend row = ''Bearish'' \<and> expected_return tp < 0 then 30 else 0)"
  define b :: real where "b = (if trend row = ''Bullish'' \<and> rsi row < rsi_oversold cfg then 20
            else if trend row = ''Bearish'' \<and> rsi row > rsi_overbought cfg then 20 else 0)"
  define c where "c = min (risk_reward tp * 10) 25"
  define d where "d = max ((1 - (volatility row / max_volatility cfg)) * 15) 0"
  define e where "e = min (\<bar>day_change row\<bar> * 2) 10"
  have eq: "calculate_opportunity_score cfg row tp = Inr (min (0 + a + b + c + d + e) 100)"
    unfolding a_def b_def c_def d_def e_def
    using assms(5) by (intro opportunity_score_eq) simp
  have "0 \<le> a" "0 \<le> b" by (simp_all add: a_def b_def)
  moreover have "0 \<le> c" using assms(4) by (simp add: c_def)
  moreover have "0 \<le> d" "0 \<le> e" by (simp_all add: d_def e_def)
  ultimately have "0 \<le> 0 + a + b + c + d + e" by linarith
  then have "0 \<le> min (0 + a + b + c + d + e) 100" by simp
  then show ?thesis unfolding eq by simp
qed


theorem opportunity_score_bounded_witness:
  "calculate_opportunity_score initial_trading_config
     \<lparr>position_size = 120000, entry_price = 1.1, take_profit = 1.12, stop_loss = 1.092,
      risk_reward = 2.5, expected_return = 550, pair = ''EUR/USD'', base_currency = ''EUR'',
      quote_currency = ''USD'', current_rate = 1.1, day_change = 1.0, trend = ''Bullish'',
      rsi = 25, volatility = 0.003, macd_signal = ''Buy'', signal_strength = 97\<rparr>
     \<lparr>position_size = 120000, entry_price = 1.1, take_profit = 1.12, stop_loss = 1.092,
      risk_reward = 2.5, expected_return = 550, entry_scale_1 = 1.09945,
      entry_scale_2 = 1.0989, confidence = 100, risk_amount = 960,
      volatility_class = ''Low'', position_adjustment = 1.2, currency_adjustment = 1.0\<rparr>
   = Inr 89.75 \<and> (0::real) \<le> 89.75 \<and> (89.75::real) \<le> 100
   \<and> (0::real) \<le> 0.003 \<and> (0::real) \<le> 25 \<and> (25::real) \<le> 100 \<and> (0::real) < 2.5
   \<and> 0 < max_volatility initial_trading_config"
proof -
  let ?row = "\<lparr>position_size = 120000, entry_price = 1.1, take_profit = 1.12, stop_loss = 1.092,
      risk_reward = 2.5, expected_return = 550, pair = ''EUR/USD'', base_currency = ''EUR'',
      quote_currency = ''USD'', current_rate = 1.1, day_change = 1.0, trend = ''Bullish'',
      rsi = 25, volatility = 0.003, macd_signal = ''Buy'', signal_strength = 97\<rparr>"
  let ?tp = "\<lparr>position_size = 120000, entry_price = 1.1, take_profit = 1.12, stop_loss = 1.092,
      risk_reward = 2.5, expected_return = 550, entry_scale_1 = 1.09945,
      entry_scale_2 = 1.0989, confidence = 100, risk_amount = 960,
      volatility_class = ''Low'', position_adjustment = 1.2, currency_adjustment = 1.0\<rparr>"
  have v: "calculate_opportunity_score initial_trading_config ?row ?tp = Inr 89.75"
    by (subst opportunity_score_eq) (simp_all add: initial_trading_config_def)
  have "0 \<le> volatility ?row" "0 \<le> rsi ?row" "rsi ?row \<le> 100" "0 < risk_reward ?tp"
    "0 < max_volatility initial_trading_config"
    by (simp_all add: initial_trading_config_def)
  from opportunity_score_bounded [OF this] v show ?thesis
    by (simp add: initial_trading_config_def)
qed

section \<open>Properties of the ranking\<close>

lemma calc_GBP_low:
  "calculate_position_parameters ''GBP'' 1.3 0.004 =
     Inr \<lparr>position_size = 76000, entry_price = 1.3,
          take_profit = 1.3 + 0.0013156 * sqrt 252, stop_loss = 1.3 - 0.00052 * sqrt 252,
          risk_reward = 2.53, expected_return = 23.25752 * sqrt 252,
          entry_scale_1 = 1.29935, entry_scale_2 = 1.2987, confidence = 100,
          risk_amount = 39.52 * sqrt 252, volatility_class = ''Low'',
          position_adjustment = 1.0, currency_adjustment = 0.95\<rparr>"
proof -
  have "(0.0052::real) * 1.3 \<le> 0.0052 * sqrt 252 * 0.1"
    using sqrt_252_bounds(1) by simp
  then have "max ((0.0052::real) * 1.3) (0.0052 * sqrt 252 * 0.1) = 0.00052 * sqrt 252"
    by (simp add: max_def)
  then have d: "calculate_dynamic_distances 0.004 (0.004 * 1.3) (0.004 * 1.3 * sqrt 252) ''GBP''
     = (0.00052 * sqrt 252, 0.0013156 * sqrt 252)"
    by (simp add: calculate_dynamic_distances_def dict_get_def currency_multipliers_def Let_def)
  have s: "sqrt 252 \<noteq> 0" using sqrt_252_bounds(1) by simp
  show ?thesis
    unfolding calc_unfold d
    using s by (simp add: position_result_def Let_def dict_get_def position_config_def
        currency_volatility_def)
qed

lemma calc_USD_low:
  "calculate_position_parameters ''USD'' 0.9 0.004 =
     Inr \<lparr>position_size = 100000, entry_price = 0.9,
          take_profit = 0.9 + 0.0009504 * sqrt 252, stop_loss = 0.9 - 0.00036 * sqrt 252,
          risk_reward = 2.64, expected_return = 22.968 * sqrt 252,
          entry_scale_1 = 0.89955, entry_scale_2 = 0.8991, confidence = 100,
          risk_amount = 36 * sqrt 252, volatility_class = ''Low'',
          position_adjustment = 1.0, currency_adjustment = 1.0\<rparr>"
proof -
  have "(0.0036::real) * 1.2 \<le> 0.0036 * sqrt 252 * 0.1"
    using sqrt_252_bounds(1) by simp
  then have "max ((0.0036::real) * 1.2) (0.0036 * sqrt 252 * 0.1) = 0.00036 * sqrt 252"
    by (simp add: max_def)
  then have d: "calculate_dynamic_distances 0.004 (0.004 * 0.9) (0.004 * 0.9 * sqrt 252) ''USD''
     = (0.00036 * sqrt 252, 0.0009504 * sqrt 252)"
    by (simp add: calculate_dynamic_distances_def dict_get_def currency_multipliers_def Let_def)
  have s: "sqrt 252 \<noteq> 0" using sqrt_252_bounds(1) by simp
  show ?thesis
    unfolding calc_unfold d
    using s by (simp add: position_result_def Let_def dict_get_def position_config_def
        currency_volatility_def)
qed


lemma split_pairs:
  "split_on CHR ''/'' ''EUR/USD'' = [''EUR'', ''USD'']"
  "split_on CHR ''/'' ''GBP/USD'' = [''GBP'', ''USD'']"
  "split_on CHR ''/'' ''USD/CHF'' = [''USD'', ''CHF'']"
  by simp_all

lemma two_pair_market_rows:
  "two_pair_market =
     [\<lparr>position_size = 100000, entry_price = 1.1,
       take_profit = 1.1 + 0.00121 * sqrt 252, stop_loss = 1.1 - 0.00044 * sqrt 252,
       risk_reward = 2.75, expected_return = 30.25 * sqrt 252,
       pair = ''EUR/USD'', base_currency = ''EUR'', quote_currency = ''USD'',
       current_rate = 1.1, day_change = 0, trend = ''Bullish'', rsi = 50,
       volatility = 0.004, macd_signal = ''Buy'', signal_strength = 71\<rparr>,
      \<lparr>position_size = 76000, entry_price = 1.3,
       take_profit = 1.3 + 0.0013156 * sqrt 252, stop_loss = 1.3 - 0.00052 * sqrt 252,
       risk_reward = 2.53, expected_return = 23.25752 * sqrt 252,
       pair = ''GBP/USD'', base_currency = ''GBP'', quote_currency = ''USD'',
       current_rate = 1.3, day_change = 5, trend = ''Bullish'', rsi = 50,
       volatility = 0.004, macd_signal = ''Sell'', signal_strength = 41\<rparr>]"
  using calc_EUR_low calc_GBP_low
  by (simp add: two_pair_market_def load_row_def example_summaries_def split_pairs
      calculate_signal_strength_def Let_def)


lemma tied_market_rows:
  "tied_market =
     [\<lparr>position_size = 100000, entry_price = 1.1,
       take_profit = 1.1 + 0.00121 * sqrt 252, stop_loss = 1.1 - 0.00044 * sqrt 252,
       risk_reward = 2.75, expected_return = 30.25 * sqrt 252,
       pair = ''EUR/USD'', base_currency = ''EUR'', quote_currency = ''USD'',
       current_rate = 1.1, day_change = 0, trend = ''Bullish'', rsi = 50,
       volatility = 0.004, macd_signal = ''Buy'', signal_strength = 71\<rparr>,
      \<lparr>position_size = 100000, entry_price = 0.9,
       take_profit = 0.9 + 0.0009504 * sqrt 252, stop_loss = 0.9 - 0.00036 * sqrt 252,
       risk_reward = 2.64, expected_return = 22.968 * sqrt 252,
       pair = ''USD/CHF'', base_currency = ''USD'', quote_currency = ''CHF'',
       current_rate = 0.9, day_change = 0, trend = ''Bullish'', rsi = 50,
       volatility = 0.004, macd_signal = ''Buy'', signal_strength = 71\<rparr>]"
  using calc_EUR_low calc_USD_low
  by (simp add: tied_market_def load_row_def example_summaries_def split_pairs
      calculate_signal_strength_def Let_def)

lemma sort_values_descending_exists: "\<exists>result. sort_values_descending key rows result"
proof -
  have "sorted (map key (sort_key key rows))" by simp
  then have "sorted_wrt (\<lambda>a b. key a \<le> key b) (sort_key key rows)"
    by (simp only: sorted_map)
  then have "sorted_wrt (\<lambda>a b. key b \<le> key a) (rev (sort_key key rows))"
    by (simp only: sorted_wrt_rev)
  then have "sort_values_descending key rows (rev (sort_key key rows))"
    by (simp add: sort_values_descending_def)
  then show ?thesis ..
qed

lemma analyze_rows_market:
  "analyze_rows cfg rows = Inr opps \<Longrightarrow> map market opps = rows"
  by (induction rows arbitrary: opps) (auto split: sum.splits)

lemma get_top_opportunities_empty:
  "get_top_opportunities [] m outcome \<longleftrightarrow> outcome = Inl KeyError"
  by (cases outcome) (auto simp: get_top_opportunities_def)

text \<open>
  Claim C3, as the code has it. For every non-empty market data frame and every
  threshold \<open>m\<close>, \<^verbatim>\<open>get_top_opportunities\<close> returns, and what it returns is exactly the
  rows whose risk\_reward is at least \<open>m\<close>, in an order in which \<^verbatim>\<open>signal_strength\<close> (not
  the opportunity score) does not increase. Sorting by opportunity score is what
  \<^verbatim>\<open>analyze_opportunities\<close> does: when it returns, the cache holds one entry for every
  row of the frame, unfiltered, in an order in which the opportunity score does not
  increase. Neither method promises an order among rows with equal keys.
\<close>

theorem get_top_opportunities_ranks_by_signal_strength:
  assumes "market_data \<noteq> []"
  shows "(\<exists>opps. get_top_opportunities market_data m (Inr opps))
       \<and> (\<forall>outcome. get_top_opportunities market_data m outcome \<longrightarrow>
            (\<exists>opps. outcome = Inr opps
               \<and> mset opps = mset (filter (\<lambda>row. m \<le> risk_reward row) market_data)
               \<and> sorted_wrt (\<lambda>a b. signal_strength b \<le> signal_strength a) opps))
       \<and> (\<forall>cache result. analyze_opportunities cfg market_data cache (Inr result) \<longrightarrow>
            mset (map market result) = mset market_data
            \<and> sorted_wrt (\<lambda>a b. opportunity_score b \<le> opportunity_score a) result)"
proof (intro conjI allI impI)
  obtain opps where "sort_values_descending signal_strength
      (filter (\<lambda>row. m \<le> risk_reward row) market_data) opps"
    using sort_values_descending_exists by blast
  then have "get_top_opportunities market_data m (Inr opps)"
    using assms by (simp add: get_top_opportunities_def)
  then show "\<exists>opps. get_top_opportunities market_data m (Inr opps)" ..
next
  fix outcome
  assume "get_top_opportunities market_data m outcome"
  then show "\<exists>opps. outcome = Inr opps
               \<and> mset opps = mset (filter (\<lambda>row. m \<le> risk_reward row) market_data)
               \<and> sorted_wrt (\<lambda>a b. signal_strength b \<le> signal_strength a) opps"
    using assms
    by (cases outcome) (simp_all add: get_top_opportunities_def sort_values_descending_def)
next
  fix cache result
  assume a: "analyze_opportunities cfg market_data cache (Inr result)"
  then obtain opps where o: "analyze_rows cfg market_data = Inr opps"
    and s: "sort_values_descending opportunity_score opps result"
    using assms by (cases "analyze_rows cfg market_data") (simp_all add: analyze_opportunities_def)
  have "mset (map market result) = mset (map market opps)"
    using s by (simp add: sort_values_descending_def)
  then show "mset (map market result) = mset market_data"
    using analyze_rows_market [OF o] by simp
  show "sorted_wrt (\<lambda>a b. opportunity_score b \<le> opportunity_score a) result"
    using s by (simp add: sort_values_descending_def)
qed


lemma initial_trading_config_values:
  "max_volatility initial_trading_config = 0.02"
  "rsi_oversold initial_trading_config = 30"
  "rsi_overbought initial_trading_config = 70"
  by (simp_all add: initial_trading_config_def)

lemma two_pair_scores:
  "map_sum id (map opportunity_score) (analyze_rows initial_trading_config two_pair_market)
     = Inr [67, 77]"
proof -
  have c: "max_volatility initial_trading_config \<noteq> 0"
    by (simp add: initial_trading_config_def)
  show ?thesis
    unfolding two_pair_market_rows
    using calc_EUR_low calc_GBP_low
    by (simp add: opportunity_score_eq [OF c] initial_trading_config_values)
qed

text \<open>
  The market of EUR/USD and GBP/USD: both rows pass the threshold 1.5, the signal
  strengths are 71 and 41, so EUR/USD is returned first and the other order is not a
  result; the opportunity scores of the two rows are 67 and 77, which increase.
\<close>

theorem ranking_ignores_opportunity_score:
  "map pair two_pair_market = [''EUR/USD'', ''GBP/USD'']
   \<and> map risk_reward two_pair_market = [2.75, 2.53]
   \<and> map signal_strength two_pair_market = [71, 41]
   \<and> get_top_opportunities two_pair_market 1.5 (Inr two_pair_market)
   \<and> \<not> get_top_opportunities two_pair_market 1.5 (Inr (rev two_pair_market))
   \<and> map_sum id (map opportunity_score) (analyze_rows initial_trading_config two_pair_market)
       = Inr [67, 77]
   \<and> \<not> sorted_wrt (\<lambda>a b. b \<le> a) [67, 77 :: real]"
proof -
  have "map pair two_pair_market = [''EUR/USD'', ''GBP/USD'']"
    "map risk_reward two_pair_market = [2.75, 2.53]"
    "map signal_strength two_pair_market = [71, 41]"
    by (simp_all add: two_pair_market_rows)
  moreover have "get_top_opportunities two_pair_market 1.5 (Inr two_pair_market)"
    "\<not> get_top_opportunities two_pair_market 1.5 (Inr (rev two_pair_market))"
    by (simp_all add: two_pair_market_rows get_top_opportunities_def sort_values_descending_def)
  ultimately show ?thesis using two_pair_scores by simp
qed

text \<open>Two rows with the same signal strength: both orders are results.\<close>

lemma ties_keep_no_order:
  "map pair tied_market = [''EUR/USD'', ''USD/CHF'']
   \<and> map signal_strength tied_market = [71, 71]
   \<and> get_top_opportunities tied_market 1.5 (Inr tied_market)
   \<and> get_top_opportunities tied_market 1.5 (Inr (rev tied_market))"
  by (simp add: tied_market_rows get_top_opportunities_def sort_values_descending_def)

theorem get_top_opportunities_ranks_by_signal_strength_witness:
  "two_pair_market \<noteq> []
   \<and> get_top_opportunities two_pair_market 1.5 (Inr two_pair_market)
   \<and> mset two_pair_market = mset (filter (\<lambda>row. 1.5 \<le> risk_reward row) two_pair_market)
   \<and> sorted_wrt (\<lambda>a b. signal_strength b \<le> signal_strength a) two_pair_market"
proof -
  have ne: "two_pair_market \<noteq> []" by (simp add: two_pair_market_rows)
  have g: "get_top_opportunities two_pair_market 1.5 (Inr two_pair_market)"
    by (simp add: two_pair_market_rows get_top_opportunities_def sort_values_descending_def)
  from get_top_opportunities_ranks_by_signal_strength [OF ne, of "1.5"] g ne show ?thesis by blast
qed

section \<open>The regime block is dead code\<close>

text \<open>
  Claim C9. For every input, the stop loss and take profit returned by
  \<^verbatim>\<open>_calculate_position_parameters\<close> come from \<^verbatim>\<open>_calculate_dynamic_distances\<close> alone: the
  distances of the regime block are overwritten before they are read, so the function
  with that block deleted returns the same result (or raises the same error) on every
  input.
\<close>

theorem regime_block_is_dead:
  "calculate_position_parameters b p v = calculate_position_parameters_without_regime_block b p v"
  unfolding calculate_position_parameters_def
    calculate_position_parameters_without_regime_block_def
  by (simp add: Let_def split: prod.splits)

end
